theory Spec2Isabelle
  imports Main "HOL-Library.Multiset"
begin

section \<open>Byte strings, Go maps and the regular expressions\<close>

text \<open>
  A Go \<^verbatim>\<open>string\<close> is a sequence of bytes, here a \<^typ>\<open>string\<close> (a \<^typ>\<open>char list\<close>).
  A Go \<^verbatim>\<open>map[string]V\<close> is an association list with pairwise distinct keys; an
  assignment \<^verbatim>\<open>m[k] = v\<close> replaces the value of a key that is present and adds the key
  otherwise. The order of the list is the order in which the keys were first inserted;
  the program can observe an order only through a range statement.
\<close>

type_synonym 'v gomap = "(string \<times> 'v) list"

text \<open>
  A range statement over a map yields every entry once, in an order that the Go runtime
  chooses anew each time. A choice is a list of numbers: going through the entries from
  the last inserted to the first, the number says at which position of the order built
  so far the entry is put. Every list of numbers gives an order of the entries, every
  order of the entries is given by some list of numbers, and the empty list gives the
  order of the insertions.
\<close>

fun insertAt :: "nat \<Rightarrow> 'a \<Rightarrow> 'a list \<Rightarrow> 'a list" where
  "insertAt 0 x ys = x # ys"
| "insertAt (Suc n) x [] = [x]"
| "insertAt (Suc n) x (y # ys) = y # insertAt n x ys"

fun rangeMap :: "nat list \<Rightarrow> 'a list \<Rightarrow> 'a list" where
  "rangeMap ns [] = []"
| "rangeMap [] (x # xs) = x # xs"
| "rangeMap (n # ns) (x # xs) = insertAt n x (rangeMap ns xs)"

text \<open>The choices of a run, one for each range statement to come: the next one.\<close>

definition nextOrder :: "nat list list \<Rightarrow> nat list \<times> nat list list" where
  "nextOrder os = (case os of [] \<Rightarrow> ([], []) | ns # rest \<Rightarrow> (ns, rest))"

fun mapAssign :: "string \<Rightarrow> 'v \<Rightarrow> 'v gomap \<Rightarrow> 'v gomap" where
  "mapAssign k v [] = [(k, v)]"
| "mapAssign k v ((k', v') # m) =
     (if k' = k then (k, v) # m else (k', v') # mapAssign k v m)"

subsection \<open>Character classes\<close>

definition upperLetters :: string where
  "upperLetters = ''ABCDEFGHIJKLMNOPQRSTUVWXYZ''"

definition lowerLetters :: string where
  "lowerLetters = ''abcdefghijklmnopqrstuvwxyz''"

definition digitChars :: string where
  "digitChars = ''0123456789''"

text \<open>The class \<^verbatim>\<open>[A-Z0-9]\<close> of \<^verbatim>\<open>main.go\<close>.\<close>

definition isUpperOrDigit :: "char \<Rightarrow> bool" where
  "isUpperOrDigit c = (c \<in> set (upperLetters @ digitChars))"

text \<open>The class \<^verbatim>\<open>[^ \t\r\n\v\f]\<close>: every byte but the six ASCII white-space bytes.\<close>

definition isNotSpace :: "char \<Rightarrow> bool" where
  "isNotSpace c = (c \<notin> set [CHR 0x20, CHR 0x09, CHR 0x0D, CHR 0x0A, CHR 0x0B, CHR 0x0C])"

definition isQuote :: "char \<Rightarrow> bool" where
  "isQuote c = (c = CHR 0x22 \<or> c = CHR 0x27)"

text \<open>
  Under the flag \<^verbatim>\<open>(?i)\<close> Go matches a letter with every rune of its simple case-folding
  orbit: its upper-case and lower-case forms, and for K the Kelvin sign U+212A, for S
  the long s U+017F (in UTF-8 three and two bytes).
\<close>

definition kelvinSign :: string where
  "kelvinSign = [CHR 0xE2, CHR 0x84, CHR 0xAA]"

definition longS :: string where
  "longS = [CHR 0xC5, CHR 0xBF]"

definition toUpperASCII :: "char \<Rightarrow> char" where
  "toUpperASCII c = (case map_of (zip lowerLetters upperLetters) c of Some u \<Rightarrow> u | None \<Rightarrow> c)"

text \<open>One literal of a pattern, case-sensitive and case-insensitive: the text consumed.\<close>

fun literalPrefix :: "string \<Rightarrow> string \<Rightarrow> string option" where
  "literalPrefix [] s = Some []"
| "literalPrefix (p # ps) [] = None"
| "literalPrefix (p # ps) (c # cs) =
     (if p = c then map_option ((#) c) (literalPrefix ps cs) else None)"

definition foldRune :: "char \<Rightarrow> string \<Rightarrow> string option" where
  "foldRune p s =
     (case s of
        [] \<Rightarrow> None
      | c # cs \<Rightarrow>
          if toUpperASCII c = p then Some [c]
          else if p = CHR ''K'' \<and> take 3 s = kelvinSign then Some kelvinSign
          else if p = CHR ''S'' \<and> take 2 s = longS then Some longS
          else None)"

text \<open>The pattern text is given in upper case.\<close>

fun foldPrefix :: "string \<Rightarrow> string \<Rightarrow> string option" where
  "foldPrefix [] s = Some []"
| "foldPrefix (p # ps) s =
     (case foldRune p s of
        None \<Rightarrow> None
      | Some t \<Rightarrow> map_option ((@) t) (foldPrefix ps (drop (length t) s)))"

text \<open>
  The class \<^verbatim>\<open>[\w\/\+]\<close> under \<^verbatim>\<open>(?i)\<close> (the variant with goroutines): one rune of
  the class at the head of the input, or nothing. Folding adds the Kelvin sign and the
  long s to the word characters.
\<close>

definition wordRune :: "string \<Rightarrow> string option" where
  "wordRune s =
     (case s of
        [] \<Rightarrow> None
      | c # cs \<Rightarrow>
          if c \<in> set (upperLetters @ lowerLetters @ digitChars @ ''_/+'') then Some [c]
          else if take 3 s = kelvinSign then Some kelvinSign
          else if take 2 s = longS then Some longS
          else None)"

text \<open>The longest run of runes of that class; the fuel is the length of the input.\<close>

fun wordRunFuel :: "nat \<Rightarrow> string \<Rightarrow> string" where
  "wordRunFuel 0 s = []"
| "wordRunFuel (Suc n) s =
     (case wordRune s of
        None \<Rightarrow> []
      | Some t \<Rightarrow> t @ wordRunFuel n (drop (length t) s))"

definition wordRun :: "string \<Rightarrow> string" where
  "wordRun s = wordRunFuel (length s) s"

subsection \<open>The four patterns\<close>

text \<open>
  A match is the slice that \<^verbatim>\<open>FindAllStringSubmatch\<close> returns for it: the whole match at
  index 0, then the text of each group. A pattern is modelled by its match at the head of
  the input, if there is one; every pattern here starts with a literal and takes the
  longest run of its class, so the leftmost-first match at a position is the one below.
\<close>

type_synonym submatch = "string list"

text \<open>\<^verbatim>\<open>AWS_ACCESS_KEY_ID=([A-Z0-9]+)\<close>\<close>

definition accessKeyIDPattern :: "string \<Rightarrow> submatch option" where
  "accessKeyIDPattern s =
     (case literalPrefix ''AWS_ACCESS_KEY_ID='' s of
        None \<Rightarrow> None
      | Some n \<Rightarrow>
          let g = takeWhile isUpperOrDigit (drop (length n) s)
          in if g = [] then None else Some [n @ g, g])"

text \<open>\<^verbatim>\<open>(?i)AWS_SECRET_ACCESS_KEY=([^ \t\r\n\v\f]+)\<close>\<close>

definition secretAccessKeyPattern :: "string \<Rightarrow> submatch option" where
  "secretAccessKeyPattern s =
     (case foldPrefix ''AWS_SECRET_ACCESS_KEY='' s of
        None \<Rightarrow> None
      | Some n \<Rightarrow>
          let g = takeWhile isNotSpace (drop (length n) s)
          in if g = [] then None else Some [n @ g, g])"

text \<open>\<^verbatim>\<open>[=:]\<close>\<close>

definition sepPrefix :: "string \<Rightarrow> string option" where
  "sepPrefix s =
     (case s of
        [] \<Rightarrow> None
      | c # cs \<Rightarrow> if c = CHR ''='' \<or> c = CHR '':'' then Some [c] else None)"

text \<open>\<^verbatim>\<open>["']?\<close>, greedy.\<close>

definition optQuote :: "string \<Rightarrow> string" where
  "optQuote s = (case s of [] \<Rightarrow> [] | c # cs \<Rightarrow> if isQuote c then [c] else [])"

text \<open>
  \<^verbatim>\<open>(?i)(AWS_ACCESS_KEY_ID|aws_access_key_id)[=:]["']?([\w\/\+]+)["']?\<close>: group 1 is the
  variable name, group 2 the value. A quote is not in the class, so taking the opening
  quote or not never changes whether the value matches.
\<close>

definition accessKeyIDPattern2 :: "string \<Rightarrow> submatch option" where
  "accessKeyIDPattern2 s =
     (case foldPrefix ''AWS_ACCESS_KEY_ID'' s of
        None \<Rightarrow> None
      | Some n \<Rightarrow>
          (case sepPrefix (drop (length n) s) of
             None \<Rightarrow> None
           | Some e \<Rightarrow>
               let r = drop (length n + 1) s;
                   q = optQuote r;
                   g = wordRun (drop (length q) r);
                   q' = optQuote (drop (length q + length g) r)
               in if g = [] then None else Some [n @ e @ q @ g @ q', n, g]))"

text \<open>
  \<^verbatim>\<open>(?i)(AWS_SECRET_ACCESS_KEY|aws_secret_access_key)[=:]["']?([^ \t\r\n\v\f]+)["']?\<close>:
  the quotes are in the class of the value. The opening quote is taken when a value
  follows it; otherwise the quote itself is the value. The value runs to the next
  white space, so the closing \<^verbatim>\<open>["']?\<close> matches nothing.
\<close>

definition secretAccessKeyPattern2 :: "string \<Rightarrow> submatch option" where
  "secretAccessKeyPattern2 s =
     (case foldPrefix ''AWS_SECRET_ACCESS_KEY'' s of
        None \<Rightarrow> None
      | Some n \<Rightarrow>
          (case sepPrefix (drop (length n) s) of
             None \<Rightarrow> None
           | Some e \<Rightarrow>
               let r = drop (length n + 1) s;
                   q = optQuote r;
                   g = takeWhile isNotSpace (drop (length q) r)
               in if g \<noteq> [] then Some [n @ e @ q @ g, n, g]
                  else if q \<noteq> [] then Some [n @ e @ q, n, q]
                  else None))"

text \<open>
  \<^verbatim>\<open>FindAllStringSubmatch(s, -1)\<close>: the successive non-overlapping matches, the search
  resuming at the end of the last match. The counter is the number of bytes of the last
  match still to skip.
\<close>

fun findAllFrom :: "(string \<Rightarrow> submatch option) \<Rightarrow> nat \<Rightarrow> string \<Rightarrow> submatch list" where
  "findAllFrom pat skip [] = []"
| "findAllFrom pat skip (c # cs) =
     (if 0 < skip then findAllFrom pat (skip - 1) cs
      else (case pat (c # cs) of
              None \<Rightarrow> findAllFrom pat 0 cs
            | Some m \<Rightarrow> m # findAllFrom pat (length (m ! 0) - 1) cs))"

definition FindAllStringSubmatch :: "(string \<Rightarrow> submatch option) \<Rightarrow> string \<Rightarrow> submatch list" where
  "FindAllStringSubmatch pat s = findAllFrom pat 0 s"

section \<open>searchIAMKeysInFile\<close>

datatype error =
    ReadFileError string
  | FailedToReadFile error
  | FailedToSearchFile error
  | FailedToSearchRepo error
  | WalkError string
  | ChdirError string
  | FailedToChdir error
  | GitError string string
  | FailedToGetCommitHashes error
  | FailedToCheckout error

text \<open>
  The two nested iterations that combine the matches. Both variants take the element
  at index 1 of each match, and skip a secret match whose element at index 0 is empty.
\<close>

fun secretLoop :: "string \<Rightarrow> submatch list \<Rightarrow> string gomap \<Rightarrow> string gomap" where
  "secretLoop accessKeyID [] iamKeys = iamKeys"
| "secretLoop accessKeyID (secretMatch # rest) iamKeys =
     secretLoop accessKeyID rest
       (if secretMatch ! 0 \<noteq> [] then mapAssign accessKeyID (secretMatch ! 1) iamKeys
        else iamKeys)"

fun combineKeys :: "submatch list \<Rightarrow> submatch list \<Rightarrow> string gomap \<Rightarrow> string gomap" where
  "combineKeys [] secretAccessKeys iamKeys = iamKeys"
| "combineKeys (match # rest) secretAccessKeys iamKeys =
     combineKeys rest secretAccessKeys (secretLoop (match ! 1) secretAccessKeys iamKeys)"

text \<open>The argument is what \<^verbatim>\<open>ioutil.ReadFile\<close> returns: an error or the content.\<close>

definition searchIAMKeysInFile :: "string + string \<Rightarrow> error + string gomap" where
  "searchIAMKeysInFile rd =
     (case rd of
        Inl e \<Rightarrow> Inl (FailedToReadFile (ReadFileError e))
      | Inr content \<Rightarrow>
          Inr (combineKeys (FindAllStringSubmatch accessKeyIDPattern content)
                 (FindAllStringSubmatch secretAccessKeyPattern content) []))"

text \<open>The variant with goroutines: the same loops over the matches of its own patterns.\<close>

definition searchIAMKeysInFile2 :: "string + string \<Rightarrow> error + string gomap" where
  "searchIAMKeysInFile2 rd =
     (case rd of
        Inl e \<Rightarrow> Inl (FailedToReadFile (ReadFileError e))
      | Inr content \<Rightarrow>
          Inr (combineKeys (FindAllStringSubmatch accessKeyIDPattern2 content)
                 (FindAllStringSubmatch secretAccessKeyPattern2 content) []))"

section \<open>searchIAMKeysInRepo\<close>

text \<open>
  \<^verbatim>\<open>filepath.Walk\<close> calls the function it is given once for every entry under the root,
  in lexical order, and stops at the first call that returns an error (the function of
  this program never returns \<^verbatim>\<open>SkipDir\<close>). A working tree is the list of those visits:
  a directory, a file with the result of reading it, or an entry that \<^verbatim>\<open>Walk\<close> could not
  stat or list, which it passes on as an error.
\<close>

datatype visit = VisitDir | VisitFile "string + string" | VisitErr string

type_synonym tree = "(string \<times> visit) list"

definition walkFunc ::
  "(string + string \<Rightarrow> error + string gomap) \<Rightarrow> string \<Rightarrow> visit \<Rightarrow>
   (string gomap) gomap \<Rightarrow> error + (string gomap) gomap" where
  "walkFunc search path v foundIAMKeys =
     (case v of
        VisitErr e \<Rightarrow> Inl (WalkError e)
      | VisitDir \<Rightarrow> Inr foundIAMKeys
      | VisitFile rd \<Rightarrow>
          (case search rd of
             Inl e \<Rightarrow> Inl (FailedToSearchFile e)
           | Inr iamKeys \<Rightarrow>
               Inr (if 0 < length iamKeys then mapAssign path iamKeys foundIAMKeys
                    else foundIAMKeys)))"

fun Walk ::
  "(string + string \<Rightarrow> error + string gomap) \<Rightarrow> tree \<Rightarrow>
   (string gomap) gomap \<Rightarrow> error + (string gomap) gomap" where
  "Walk search [] foundIAMKeys = Inr foundIAMKeys"
| "Walk search ((path, v) # rest) foundIAMKeys =
     (case walkFunc search path v foundIAMKeys of
        Inl e \<Rightarrow> Inl e
      | Inr found' \<Rightarrow> Walk search rest found')"

definition searchRepoWith ::
  "(string + string \<Rightarrow> error + string gomap) \<Rightarrow> tree \<Rightarrow> error + (string gomap) gomap" where
  "searchRepoWith search t =
     (case Walk search t [] of
        Inl e \<Rightarrow> Inl (FailedToSearchRepo e)
      | Inr foundIAMKeys \<Rightarrow> Inr foundIAMKeys)"

definition searchIAMKeysInRepo :: "tree \<Rightarrow> error + (string gomap) gomap" where
  "searchIAMKeysInRepo = searchRepoWith searchIAMKeysInFile"

definition searchIAMKeysInRepo2 :: "tree \<Rightarrow> error + (string gomap) gomap" where
  "searchIAMKeysInRepo2 = searchRepoWith searchIAMKeysInFile2"

section \<open>The outside world: git and AWS\<close>

text \<open>
  What the program gets from outside is a record of the answers: of \<^verbatim>\<open>os.Chdir\<close>, of the
  three git commands (a failing command gives its error and its output; a checkout that
  succeeds gives the working tree it leaves), and of the AWS calls. An AWS error is an
  \<^verbatim>\<open>awserr.Error\<close> with its code, or another error. The field \<open>elapsed\<close> is the
  rounded duration that the second variant prints at its end, and \<open>mapOrders\<close> holds
  the orders that the runtime chooses for the range statements over maps, in the order
  in which the run reaches them.
\<close>

datatype go_error = AwsErr string | PlainErr string

datatype lastUsedOutput = NilOutput | Output "string option"

record world =
  tempDir :: "string + string"
  gitClone :: "string \<Rightarrow> string \<Rightarrow> (string \<times> string) option"
  chdir :: "string \<Rightarrow> string option"
  gitLog :: "(string \<times> string) + string"
  gitCheckout :: "string \<Rightarrow> (string \<times> string) + tree"
  newSession :: "go_error option"
  getCallerIdentity :: "string \<Rightarrow> string \<Rightarrow> go_error option"
  getAccessKeyLastUsed :: "string \<Rightarrow> go_error + lastUsedOutput"
  elapsed :: string
  mapOrders :: "nat list list"

datatype clone_error = FailedToCreateTempDir string | FailedToClone string string

definition cloneRepo :: "world \<Rightarrow> string \<Rightarrow> clone_error + string" where
  "cloneRepo w url =
     (case tempDir w of
        Inl e \<Rightarrow> Inl (FailedToCreateTempDir e)
      | Inr dir \<Rightarrow>
          (case gitClone w url dir of
             Some (e, output) \<Rightarrow> Inl (FailedToClone e output)
           | None \<Rightarrow> Inr dir))"

text \<open>\<^verbatim>\<open>strings.Split(s, "\n")\<close>: the pieces between the newlines, never an empty slice.\<close>

fun Split :: "string \<Rightarrow> string list" where
  "Split [] = [[]]"
| "Split (c # cs) =
     (if c = CHR 0x0A then [] # Split cs
      else (let r = Split cs in (c # hd r) # tl r))"

definition getCommitHashes :: "world \<Rightarrow> string \<Rightarrow> error + string list" where
  "getCommitHashes w repoPath =
     (case chdir w repoPath of
        Some e \<Rightarrow> Inl (FailedToChdir (ChdirError e))
      | None \<Rightarrow>
          (case gitLog w of
             Inl (e, output) \<Rightarrow> Inl (FailedToGetCommitHashes (GitError e output))
           | Inr output \<Rightarrow> Inr (Split output)))"

definition checkoutCommit :: "world \<Rightarrow> string \<Rightarrow> string \<Rightarrow> error + tree" where
  "checkoutCommit w repoPath commitHash =
     (case chdir w repoPath of
        Some e \<Rightarrow> Inl (FailedToChdir (ChdirError e))
      | None \<Rightarrow>
          (case gitCheckout w commitHash of
             Inl (e, output) \<Rightarrow> Inl (FailedToCheckout (GitError e output))
           | Inr t \<Rightarrow> Inr t))"

text \<open>\<^verbatim>\<open>validateIAMKey\<close> of \<^verbatim>\<open>main.go\<close>: a call of STS \<^verbatim>\<open>GetCallerIdentity\<close> with the key pair.\<close>

definition validateIAMKey :: "world \<Rightarrow> string \<Rightarrow> string \<Rightarrow> bool" where
  "validateIAMKey w accessKeyID secretAccessKey =
     (case newSession w of
        Some err \<Rightarrow> False
      | None \<Rightarrow>
          (case getCallerIdentity w accessKeyID secretAccessKey of
             Some err \<Rightarrow> False
           | None \<Rightarrow> True))"

text \<open>
  \<^verbatim>\<open>validateIAMKey\<close> of the variant with goroutines: IAM \<^verbatim>\<open>GetAccessKeyLastUsed\<close>, with a
  switch over the error code whose branches all return false.
\<close>

definition ErrCodeNoSuchEntityException :: string where
  "ErrCodeNoSuchEntityException = ''NoSuchEntity''"

definition validateIAMKey2 :: "world \<Rightarrow> string \<Rightarrow> string \<Rightarrow> bool" where
  "validateIAMKey2 w accessKeyID secretAccessKey =
     (case newSession w of
        Some err \<Rightarrow> False
      | None \<Rightarrow>
          (case getAccessKeyLastUsed w accessKeyID of
             Inl (AwsErr code) \<Rightarrow>
               (if code = ErrCodeNoSuchEntityException then False else False)
           | Inl (PlainErr e) \<Rightarrow> False
           | Inr NilOutput \<Rightarrow> False
           | Inr (Output None) \<Rightarrow> False
           | Inr (Output (Some userName)) \<Rightarrow> True))"

section \<open>main of main.go\<close>

text \<open>
  The state of a run: the working tree on disk, the flag, the lines printed, the calls
  of \<^verbatim>\<open>checkoutCommit\<close> and \<^verbatim>\<open>validateIAMKey\<close> made so far, in order, and the
  choices of order left for the range statements to come.
\<close>

datatype call = CheckoutCommit string | ValidateIAMKey string string

record run_state =
  worktree :: tree
  validKeysFound :: bool
  stdout :: "string list"
  calls :: "call list"
  rangeOrders :: "nat list list"

text \<open>
  The errors that end a run through \<^verbatim>\<open>log.Fatal\<close>; the last one is an error that a
  goroutine of the second variant sent to \<^verbatim>\<open>main\<close>.
\<close>

datatype chan_error = ErrCheckingOut string error | ErrSearching string error

datatype fatal =
    NoRepoFlag
  | ErrorCloning clone_error
  | ErrorGettingHashes error
  | ErrorCheckingOut string error
  | ErrorSearching error
  | FromGoroutine chan_error

datatype exit = Exit0 | Fatal fatal

definition validLine :: "string \<Rightarrow> string \<Rightarrow> string" where
  "validLine commitHash accessKeyID =
     ''Valid IAM key found in commit '' @ commitHash @ '': '' @ accessKeyID @ [CHR 0x0A]"

definition validateOne :: "world \<Rightarrow> string \<Rightarrow> string \<Rightarrow> string \<Rightarrow> run_state \<Rightarrow> run_state" where
  "validateOne w commitHash accessKeyID secretAccessKey st =
     (let st' = st\<lparr>calls := calls st @ [ValidateIAMKey accessKeyID secretAccessKey]\<rparr>
      in if validateIAMKey w accessKeyID secretAccessKey
         then st'\<lparr>validKeysFound := True,
                  stdout := stdout st' @ [validLine commitHash accessKeyID]\<rparr>
         else st')"

text \<open>
  The inner range statement, over the keys of one file: the runtime chooses the order,
  then the body runs on the entries in that order.
\<close>

fun keysLoop :: "world \<Rightarrow> string \<Rightarrow> (string \<times> string) list \<Rightarrow> run_state \<Rightarrow> run_state" where
  "keysLoop w commitHash [] st = st"
| "keysLoop w commitHash ((accessKeyID, secretAccessKey) # rest) st =
     keysLoop w commitHash rest (validateOne w commitHash accessKeyID secretAccessKey st)"

definition validateKeys :: "world \<Rightarrow> string \<Rightarrow> string gomap \<Rightarrow> run_state \<Rightarrow> run_state" where
  "validateKeys w commitHash iamKeys st =
     (let (ns, rest) = nextOrder (rangeOrders st)
      in keysLoop w commitHash (rangeMap ns iamKeys) (st\<lparr>rangeOrders := rest\<rparr>))"

text \<open>The outer range statement, over the files in which keys were found.\<close>

fun filesLoop ::
  "world \<Rightarrow> string \<Rightarrow> (string \<times> string gomap) list \<Rightarrow> run_state \<Rightarrow> run_state" where
  "filesLoop w commitHash [] st = st"
| "filesLoop w commitHash ((path, iamKeys) # rest) st =
     filesLoop w commitHash rest (validateKeys w commitHash iamKeys st)"

definition validateFound ::
  "world \<Rightarrow> string \<Rightarrow> (string gomap) gomap \<Rightarrow> run_state \<Rightarrow> run_state" where
  "validateFound w commitHash foundIAMKeys st =
     (let (ns, rest) = nextOrder (rangeOrders st)
      in filesLoop w commitHash (rangeMap ns foundIAMKeys) (st\<lparr>rangeOrders := rest\<rparr>))"

fun commitLoop :: "world \<Rightarrow> string \<Rightarrow> string list \<Rightarrow> run_state \<Rightarrow> exit \<times> run_state" where
  "commitLoop w repoPath [] st = (Exit0, st)"
| "commitLoop w repoPath (commitHash # rest) st =
     (let st1 = st\<lparr>calls := calls st @ [CheckoutCommit commitHash]\<rparr>
      in case checkoutCommit w repoPath commitHash of
           Inl e \<Rightarrow> (Fatal (ErrorCheckingOut commitHash e), st1)
         | Inr t \<Rightarrow>
             (let st2 = st1\<lparr>worktree := t\<rparr>
              in case searchIAMKeysInRepo (worktree st2) of
                   Inl e \<Rightarrow> (Fatal (ErrorSearching e), st2)
                 | Inr foundIAMKeys \<Rightarrow>
                     commitLoop w repoPath rest (validateFound w commitHash foundIAMKeys st2)))"

definition noValidLine :: string where
  "noValidLine = [CHR 0x0A] @ ''No valid IAM keys found in the repository.'' @ [CHR 0x0A]"

definition initState :: run_state where
  "initState =
     \<lparr>worktree = [], validKeysFound = False, stdout = [], calls = [], rangeOrders = []\<rparr>"

text \<open>The state in which a run starts: nothing done yet, every choice of order to come.\<close>

definition startState :: "world \<Rightarrow> run_state" where
  "startState w = initState\<lparr>rangeOrders := mapOrders w\<rparr>"

text \<open>The argument is the value of the flag \<^verbatim>\<open>-repo\<close>. The clone leaves the tree of the
  newest commit on disk; the program never reads it before its first checkout.\<close>

definition main :: "world \<Rightarrow> string \<Rightarrow> exit \<times> run_state" where
  "main w repoURL =
     (if repoURL = [] then (Fatal NoRepoFlag, startState w)
      else case cloneRepo w repoURL of
             Inl e \<Rightarrow> (Fatal (ErrorCloning e), startState w)
           | Inr repoPath \<Rightarrow>
               (case getCommitHashes w repoPath of
                  Inl e \<Rightarrow> (Fatal (ErrorGettingHashes e), startState w)
                | Inr commitHashes \<Rightarrow>
                    (case commitLoop w repoPath commitHashes (startState w) of
                       (Fatal f, st) \<Rightarrow> (Fatal f, st)
                     | (Exit0, st) \<Rightarrow>
                         (Exit0, if \<not> validKeysFound st
                                 then st\<lparr>stdout := stdout st @ [noValidLine]\<rparr> else st))))"

section \<open>main of the second variant\<close>

text \<open>
  The second variant starts one goroutine per commit, all of them on the one cloned
  directory. A goroutine checks its commit out, searches the directory, then for every
  key found prints the result of \<^verbatim>\<open>validateIAMKey\<close> and starts a further goroutine that
  validates the key again. An error is sent on \<^verbatim>\<open>errChan\<close>, a channel with room for one
  value: the send blocks while the channel is full. Meanwhile \<^verbatim>\<open>main\<close> runs a loop of
  non-blocking receives, one per commit, and then prints and returns, which ends the
  process whatever the goroutines are doing.

  The model runs under a schedule: the list of who takes the next step. The steps of a
  goroutine (checkout, search, validation of what it found, send) are atomic here, and
  the validation goroutines run in the order in which they were started; this only
  removes interleavings. The two range statements over the maps take their orders from
  the choices of the run, as in \<^verbatim>\<open>main.go\<close>.
\<close>

datatype phase =
    Spawned
  | CheckedOut
  | Searched "(string gomap) gomap"
  | Sending chan_error
  | Returned

record shared = run_state +
  goroutines :: "(string \<times> phase) list"
  errChan :: "chan_error option"
  pending :: "(string \<times> string \<times> string) list"
  mainIndex :: nat
  finished :: "exit option"

datatype action = Go nat | Validation | MainStep

text \<open>\<^verbatim>\<open>fmt.Println\<close> of a boolean.\<close>

definition boolLine :: "bool \<Rightarrow> string" where
  "boolLine b = (if b then ''true'' else ''false'') @ [CHR 0x0A]"

definition totalTimeLine :: "string \<Rightarrow> string" where
  "totalTimeLine duration = [CHR 0x0A] @ ''Total time taken: '' @ duration @ [CHR 0x0A]"

fun validateInline ::
  "world \<Rightarrow> string \<Rightarrow> (string \<times> string) list \<Rightarrow> shared \<Rightarrow> shared" where
  "validateInline w commitHash [] s = s"
| "validateInline w commitHash ((accessKeyID, secretAccessKey) # rest) s =
     validateInline w commitHash rest
       (s\<lparr>calls := calls s @ [ValidateIAMKey accessKeyID secretAccessKey],
          stdout := stdout s @ [boolLine (validateIAMKey2 w accessKeyID secretAccessKey)],
          pending := pending s @ [(commitHash, accessKeyID, secretAccessKey)]\<rparr>)"

fun inlineFiles ::
  "world \<Rightarrow> string \<Rightarrow> (string \<times> string gomap) list \<Rightarrow> shared \<Rightarrow> shared" where
  "inlineFiles w commitHash [] s = s"
| "inlineFiles w commitHash ((path, iamKeys) # rest) s =
     inlineFiles w commitHash rest
       (let (ns, os) = nextOrder (rangeOrders s)
        in validateInline w commitHash (rangeMap ns iamKeys) (s\<lparr>rangeOrders := os\<rparr>))"

definition validateFound2 ::
  "world \<Rightarrow> string \<Rightarrow> (string gomap) gomap \<Rightarrow> shared \<Rightarrow> shared" where
  "validateFound2 w commitHash foundIAMKeys s =
     (let (ns, os) = nextOrder (rangeOrders s)
      in inlineFiles w commitHash (rangeMap ns foundIAMKeys) (s\<lparr>rangeOrders := os\<rparr>))"

definition setPhase :: "nat \<Rightarrow> string \<Rightarrow> phase \<Rightarrow> shared \<Rightarrow> shared" where
  "setPhase i commitHash ph s = s\<lparr>goroutines := (goroutines s)[i := (commitHash, ph)]\<rparr>"

definition goStep :: "world \<Rightarrow> string \<Rightarrow> nat \<Rightarrow> shared \<Rightarrow> shared" where
  "goStep w repoPath i s =
     (if finished s \<noteq> None \<or> length (goroutines s) \<le> i then s
      else case goroutines s ! i of
             (commitHash, Spawned) \<Rightarrow>
               (let s1 = s\<lparr>calls := calls s @ [CheckoutCommit commitHash]\<rparr>
                in case checkoutCommit w repoPath commitHash of
                     Inl e \<Rightarrow> setPhase i commitHash (Sending (ErrCheckingOut commitHash e)) s1
                   | Inr t \<Rightarrow> setPhase i commitHash CheckedOut (s1\<lparr>worktree := t\<rparr>))
           | (commitHash, CheckedOut) \<Rightarrow>
               (case searchIAMKeysInRepo2 (worktree s) of
                  Inl e \<Rightarrow> setPhase i commitHash (Sending (ErrSearching commitHash e)) s
                | Inr foundIAMKeys \<Rightarrow> setPhase i commitHash (Searched foundIAMKeys) s)
           | (commitHash, Searched foundIAMKeys) \<Rightarrow>
               setPhase i commitHash Returned (validateFound2 w commitHash foundIAMKeys s)
           | (commitHash, Sending err) \<Rightarrow>
               (case errChan s of
                  None \<Rightarrow> setPhase i commitHash Returned (s\<lparr>errChan := Some err\<rparr>)
                | Some other \<Rightarrow> s)
           | (commitHash, Returned) \<Rightarrow> s)"

text \<open>The oldest validation goroutine not yet run.\<close>

definition validationStep :: "world \<Rightarrow> shared \<Rightarrow> shared" where
  "validationStep w s =
     (if finished s \<noteq> None then s
      else case pending s of
             [] \<Rightarrow> s
           | (commitHash, accessKeyID, secretAccessKey) # rest \<Rightarrow>
               (let s1 = s\<lparr>pending := rest,
                           calls := calls s @ [ValidateIAMKey accessKeyID secretAccessKey]\<rparr>
                in if validateIAMKey2 w accessKeyID secretAccessKey
                   then s1\<lparr>validKeysFound := True,
                           stdout := stdout s1 @ [validLine commitHash accessKeyID]\<rparr>
                   else s1))"

text \<open>One iteration of the loop of receives, or, after the loop, the end of \<^verbatim>\<open>main\<close>.\<close>

definition mainStep :: "world \<Rightarrow> shared \<Rightarrow> shared" where
  "mainStep w s =
     (if finished s \<noteq> None then s
      else if mainIndex s < length (goroutines s)
      then (case errChan s of
              Some err \<Rightarrow> s\<lparr>errChan := None, finished := Some (Fatal (FromGoroutine err))\<rparr>
            | None \<Rightarrow> s\<lparr>mainIndex := mainIndex s + 1\<rparr>)
      else s\<lparr>stdout := stdout s @ (if \<not> validKeysFound s then [noValidLine] else [])
                         @ [totalTimeLine (elapsed w)],
             finished := Some Exit0\<rparr>)"

definition step :: "world \<Rightarrow> string \<Rightarrow> action \<Rightarrow> shared \<Rightarrow> shared" where
  "step w repoPath a s =
     (case a of
        Go i \<Rightarrow> goStep w repoPath i s
      | Validation \<Rightarrow> validationStep w s
      | MainStep \<Rightarrow> mainStep w s)"

fun runSchedule :: "world \<Rightarrow> string \<Rightarrow> action list \<Rightarrow> shared \<Rightarrow> shared" where
  "runSchedule w repoPath [] s = s"
| "runSchedule w repoPath (a # sched) s = runSchedule w repoPath sched (step w repoPath a s)"

definition spawnAll :: "world \<Rightarrow> string list \<Rightarrow> shared" where
  "spawnAll w commitHashes =
     \<lparr>worktree = [], validKeysFound = False, stdout = [], calls = [],
      rangeOrders = mapOrders w,
      goroutines = map (\<lambda>c. (c, Spawned)) commitHashes,
      errChan = None, pending = [], mainIndex = 0, finished = None\<rparr>"

text \<open>
  The run of the second variant under a schedule. Before the goroutines start, the
  program is sequential and ends on the same errors as \<^verbatim>\<open>main.go\<close>.
\<close>

definition main2 :: "world \<Rightarrow> string \<Rightarrow> action list \<Rightarrow> shared" where
  "main2 w repoURL sched =
     (if repoURL = [] then (spawnAll w [])\<lparr>finished := Some (Fatal NoRepoFlag)\<rparr>
      else case cloneRepo w repoURL of
             Inl e \<Rightarrow> (spawnAll w [])\<lparr>finished := Some (Fatal (ErrorCloning e))\<rparr>
           | Inr repoPath \<Rightarrow>
               (case getCommitHashes w repoPath of
                  Inl e \<Rightarrow> (spawnAll w [])\<lparr>finished := Some (Fatal (ErrorGettingHashes e))\<rparr>
                | Inr commitHashes \<Rightarrow> runSchedule w repoPath sched (spawnAll w commitHashes)))"

section \<open>Traces of a run, and example repositories\<close>


definition pairsOf :: "(string gomap) gomap \<Rightarrow> (string \<times> string) list" where
  "pairsOf foundIAMKeys = concat (map snd foundIAMKeys)"


definition linesIn :: "world \<Rightarrow> string \<Rightarrow> (string \<times> string) list \<Rightarrow> string list" where
  "linesIn w commitHash es =
     map (\<lambda>(k, s). validLine commitHash k) (filter (\<lambda>(k, s). validateIAMKey w k s) es)"



definition nonEmptyMatches :: "submatch list \<Rightarrow> submatch list" where
  "nonEmptyMatches ms = filter (\<lambda>m. m ! 0 \<noteq> []) ms"

definition envFile :: "string \<Rightarrow> string \<Rightarrow> string" where
  "envFile k s = ''AWS_ACCESS_KEY_ID='' @ k @ [CHR 0x0A] @ ''AWS_SECRET_ACCESS_KEY='' @ s"

definition scenarioContent :: string where
  "scenarioContent = envFile ''AKIA1234567890ABCD12'' ''abcDEF1234567890+/==''"

definition twoSecretsContent :: string where
  "twoSecretsContent =
     scenarioContent @ [CHR 0x0A] @ ''AWS_SECRET_ACCESS_KEY=zzzXYZ0987654321+/==''"

text \<open>
  A world in which the clone and every \<^verbatim>\<open>os.Chdir\<close> succeed; the output of
  \<^verbatim>\<open>git log\<close>, the checkouts and the answer of STS are given.
\<close>

definition exampleWorld ::
  "(string \<times> string) + string \<Rightarrow> (string \<Rightarrow> (string \<times> string) + tree) \<Rightarrow>
   go_error option \<Rightarrow> world" where
  "exampleWorld lg co sts =
     \<lparr>tempDir = Inr ''/tmp/repo-clone-1'',
      gitClone = (\<lambda>url dir. None),
      chdir = (\<lambda>path. None),
      gitLog = lg,
      gitCheckout = co,
      newSession = None,
      getCallerIdentity = (\<lambda>k s. sts),
      getAccessKeyLastUsed =
        (\<lambda>k. case sts of None \<Rightarrow> Inr (Output (Some ''user''))
             | Some e \<Rightarrow> Inl e),
      elapsed = ''1.5s'',
      mapOrders = []\<rparr>"

definition pathspecError :: "string \<times> string" where
  "pathspecError = (''exit status 1'', ''error: pathspec did not match any file(s) known to git'')"

definition twoCommitLog :: string where
  "twoCommitLog = ''abc123'' @ [CHR 0x0A] @ ''def456''"



text \<open>Two commits with distinct marker files.\<close>

definition treeOne :: tree where
  "treeOne = [(''/tmp/repo-clone-1'', VisitDir),
              (''/tmp/repo-clone-1/one.env'', VisitFile (Inr scenarioContent))]"

definition treeTwo :: tree where
  "treeTwo = [(''/tmp/repo-clone-1'', VisitDir),
              (''/tmp/repo-clone-1/two.env'',
               VisitFile (Inr (envFile ''AKIA0000000000000002'' ''secondSecret'')))]"

definition markerCheckout :: "string \<Rightarrow> (string \<times> string) + tree" where
  "markerCheckout c =
     (if c = ''abc123'' then Inr treeOne
      else if c = ''def456'' then Inr treeTwo
      else Inl pathspecError)"

definition markerWorld :: world where
  "markerWorld = exampleWorld (Inr twoCommitLog) markerCheckout None"

text \<open>The first commit cannot be checked out, the second can.\<close>

definition brokenFirstCheckout :: "string \<Rightarrow> (string \<times> string) + tree" where
  "brokenFirstCheckout c = (if c = ''def456'' then Inr treeTwo else Inl pathspecError)"

definition brokenFirstWorld :: world where
  "brokenFirstWorld = exampleWorld (Inr twoCommitLog) brokenFirstCheckout None"

text \<open>A tree whose first file cannot be read and whose second file holds a key pair.\<close>

definition unreadableTree :: tree where
  "unreadableTree =
     [(''/tmp/repo-clone-1'', VisitDir),
      (''/tmp/repo-clone-1/a.lock'', VisitFile (Inl ''permission denied'')),
      (''/tmp/repo-clone-1/b.env'', VisitFile (Inr scenarioContent))]"

definition unreadableWorld :: world where
  "unreadableWorld = exampleWorld (Inr ''abc123'') (\<lambda>c. Inr unreadableTree) None"

text \<open>
  A repository for which \<^verbatim>\<open>git log\<close> prints nothing, and a git that refuses to check
  out the empty revision name.
\<close>

definition emptyLogWorld :: world where
  "emptyLogWorld = exampleWorld (Inr []) (\<lambda>c. Inl pathspecError) None"

text \<open>A repository without commits, on which \<^verbatim>\<open>git log\<close> itself fails.\<close>

definition noCommitsError :: "string \<times> string" where
  "noCommitsError =
     (''exit status 128'', ''fatal: your current branch does not have any commits yet'')"

definition noCommitsWorld :: world where
  "noCommitsWorld = exampleWorld (Inl noCommitsError) (\<lambda>c. Inl pathspecError) None"

text \<open>
  One commit with two identifiers in one file, and a runtime that ranges over the keys
  of the file from the second inserted to the first.
\<close>

definition twoKeysContent :: string where
  "twoKeysContent =
     ''AWS_ACCESS_KEY_ID=AKIAA'' @ [CHR 0x0A] @ ''AWS_ACCESS_KEY_ID=AKIAB'' @ [CHR 0x0A] @
     ''AWS_SECRET_ACCESS_KEY=sharedSecret''"

definition twoKeysTree :: tree where
  "twoKeysTree = [(''/tmp/repo-clone-1'', VisitDir),
                  (''/tmp/repo-clone-1/.env'', VisitFile (Inr twoKeysContent))]"

definition twoKeysWorld :: world where
  "twoKeysWorld =
     (exampleWorld (Inr ''abc123'') (\<lambda>c. Inr twoKeysTree) None)\<lparr>mapOrders := [[], [1]]\<rparr>"

text \<open>The STS call times out; STS does not know the key.\<close>

definition timeoutWorld :: world where
  "timeoutWorld =
     exampleWorld (Inr ''abc123'') (\<lambda>c. Inr treeOne) (Some (AwsErr ''RequestError''))"

definition unknownKeyWorld :: world where
  "unknownKeyWorld =
     exampleWorld (Inr ''abc123'') (\<lambda>c. Inr treeOne) (Some (AwsErr ErrCodeNoSuchEntityException))"

section \<open>Lemmas about maps and the loops\<close>

lemma map_of_mapAssign: "map_of (mapAssign k v m) = (map_of m)(k \<mapsto> v)"
  by (induction m) auto

lemma keys_mapAssign: "fst ` set (mapAssign k v m) = insert k (fst ` set m)"
  by (induction m) force+

lemma distinct_mapAssign:
  "distinct (map fst m) \<Longrightarrow> distinct (map fst (mapAssign k v m))"
proof (induction m)
  case Nil
  then show ?case by simp
next
  case (Cons p m)
  obtain k' v' where p: "p = (k', v')" by (cases p)
  show ?case
  proof (cases "k' = k")
    case True
    with Cons.prems p show ?thesis by simp
  next
    case False
    from Cons.prems p have "k' \<notin> fst ` set m" and d: "distinct (map fst m)" by auto
    with False have "k' \<notin> fst ` set (mapAssign k v m)" by (simp add: keys_mapAssign)
    with Cons.IH [OF d] False p show ?thesis by simp
  qed
qed

lemma map_of_secretLoop:
  "map_of (secretLoop k sms m) =
     (if nonEmptyMatches sms = [] then map_of m
      else (map_of m)(k \<mapsto> last (nonEmptyMatches sms) ! 1))"
proof (induction sms arbitrary: m)
  case Nil
  show ?case by (simp add: nonEmptyMatches_def)
next
  case (Cons sm sms)
  show ?case
    by (auto simp add: Cons.IH map_of_mapAssign nonEmptyMatches_def fun_eq_iff)
qed

lemma keys_secretLoop:
  "fst ` set (secretLoop k sms m) =
     (if nonEmptyMatches sms = [] then fst ` set m else insert k (fst ` set m))"
proof (induction sms arbitrary: m)
  case Nil
  show ?case by (simp add: nonEmptyMatches_def)
next
  case (Cons sm sms)
  show ?case
    by (auto simp add: Cons.IH keys_mapAssign nonEmptyMatches_def)
qed

lemma distinct_secretLoop:
  "distinct (map fst m) \<Longrightarrow> distinct (map fst (secretLoop k sms m))"
  by (induction sms arbitrary: m) (simp_all add: distinct_mapAssign)

lemma keys_combineKeys:
  "fst ` set (combineKeys ams sms m) =
     (if nonEmptyMatches sms = [] then fst ` set m
      else (\<lambda>a. a ! 1) ` set ams \<union> fst ` set m)"
  by (induction ams arbitrary: m) (auto simp add: keys_secretLoop)

lemma distinct_combineKeys:
  "distinct (map fst m) \<Longrightarrow> distinct (map fst (combineKeys ams sms m))"
  by (induction ams arbitrary: m) (simp_all add: distinct_secretLoop)

lemma map_of_combineKeys:
  "map_of (combineKeys ams sms m) k =
     (if nonEmptyMatches sms \<noteq> [] \<and> k \<in> (\<lambda>a. a ! 1) ` set ams
      then Some (last (nonEmptyMatches sms) ! 1) else map_of m k)"
  by (induction ams arbitrary: m) (auto simp add: map_of_secretLoop)

lemma length_combineKeys: "length (combineKeys ams sms []) \<le> length ams"
proof -
  let ?R = "combineKeys ams sms []"
  have d: "distinct (map fst ?R)" by (rule distinct_combineKeys) simp
  have "length ?R = card (set (map fst ?R))"
    using distinct_card [OF d] by simp
  also have "\<dots> \<le> card ((\<lambda>a. a ! 1) ` set ams)"
    using keys_combineKeys [of ams sms "[]"] by (auto intro: card_mono)
  also have "\<dots> \<le> card (set ams)" by (rule card_image_le) simp
  also have "\<dots> \<le> length ams" by (rule card_length)
  finally show ?thesis .
qed

lemma findAllFrom_matches:
  "m \<in> set (findAllFrom pat skip s) \<Longrightarrow> \<exists>s'. pat s' = Some m"
proof (induction s arbitrary: skip)
  case Nil
  then show ?case by simp
next
  case (Cons c cs)
  then show ?case
    by (auto split: if_splits option.splits)
qed

lemma secretAccessKeyPattern_nonempty:
  "secretAccessKeyPattern s = Some m \<Longrightarrow> m ! 0 \<noteq> []"
  by (auto simp add: secretAccessKeyPattern_def Let_def split: option.splits if_splits)

lemma nonEmptyMatches_secret:
  "nonEmptyMatches (FindAllStringSubmatch secretAccessKeyPattern content) =
     FindAllStringSubmatch secretAccessKeyPattern content"
  unfolding nonEmptyMatches_def FindAllStringSubmatch_def
  by (rule filter_True) (auto dest!: findAllFrom_matches secretAccessKeyPattern_nonempty)

lemma secretAccessKeyPattern2_nonempty:
  "secretAccessKeyPattern2 s = Some m \<Longrightarrow> m ! 0 \<noteq> []"
  by (auto simp add: secretAccessKeyPattern2_def sepPrefix_def Let_def
      split: option.splits if_splits list.splits)

lemma nonEmptyMatches_secret2:
  "nonEmptyMatches (FindAllStringSubmatch secretAccessKeyPattern2 content) =
     FindAllStringSubmatch secretAccessKeyPattern2 content"
  unfolding nonEmptyMatches_def FindAllStringSubmatch_def
  by (rule filter_True) (auto dest!: findAllFrom_matches secretAccessKeyPattern2_nonempty)

lemma combineKeys_last:
  "(k, v) \<in> set (combineKeys ams sms []) \<Longrightarrow>
   nonEmptyMatches sms \<noteq> [] \<and> v = last (nonEmptyMatches sms) ! 1"
proof -
  assume mem: "(k, v) \<in> set (combineKeys ams sms [])"
  have "distinct (map fst (combineKeys ams sms []))"
    by (rule distinct_combineKeys) simp
  with mem have "map_of (combineKeys ams sms []) k = Some v" by simp
  then show ?thesis
    by (simp add: map_of_combineKeys split: if_splits)
qed

lemma mset_insertAt: "mset (insertAt n x ys) = add_mset x (mset ys)"
  by (induction n x ys rule: insertAt.induct) simp_all

lemma mset_rangeMap: "mset (rangeMap ns xs) = mset xs"
  by (induction ns xs rule: rangeMap.induct) (simp_all add: mset_insertAt)

lemma insertAt_length: "insertAt (length ys1) x (ys1 @ ys2) = ys1 @ x # ys2"
  by (induction ys1) simp_all

lemma rangeMap_any_order: "mset ys = mset xs \<Longrightarrow> \<exists>ns. rangeMap ns xs = ys"
proof (induction xs arbitrary: ys)
  case Nil
  then show ?case by simp
next
  case (Cons x xs)
  from Cons.prems have "x \<in> set ys" by (metis list.set_intros(1) mset_eq_setD)
  then obtain ys1 ys2 where ys: "ys = ys1 @ x # ys2" by (auto dest: split_list)
  with Cons.prems have "mset (ys1 @ ys2) = mset xs" by simp
  from Cons.IH [OF this] obtain ns where "rangeMap ns xs = ys1 @ ys2" ..
  then have "rangeMap (length ys1 # ns) (x # xs) = ys" by (simp add: insertAt_length ys)
  then show ?case ..
qed

lemma mset_concat_snd:
  "mset files = mset found \<Longrightarrow> mset (concat (map snd files)) = mset (concat (map snd found))"
proof -
  assume a: "mset files = mset found"
  have h: "mset (concat (map snd xs)) = sum_mset (image_mset (\<lambda>p. mset (snd p)) (mset xs))"
    for xs :: "('a \<times> 'b list) list"
    by (induction xs) simp_all
  show ?thesis by (simp add: h a)
qed

lemma keysLoop_fields:
  "calls (keysLoop w c es st) = calls st @ map (\<lambda>(k, s). ValidateIAMKey k s) es \<and>
   stdout (keysLoop w c es st) =
     stdout st @ map (\<lambda>(k, s). validLine c k) (filter (\<lambda>(k, s). validateIAMKey w k s) es)"
  by (induction es arbitrary: st) (auto simp add: validateOne_def Let_def)

lemma validateKeys_fields:
  "\<exists>es. mset es = mset iamKeys \<and>
     calls (validateKeys w c iamKeys st) = calls st @ map (\<lambda>(k, s). ValidateIAMKey k s) es \<and>
     stdout (validateKeys w c iamKeys st) =
       stdout st @ map (\<lambda>(k, s). validLine c k) (filter (\<lambda>(k, s). validateIAMKey w k s) es)"
proof -
  obtain ns rest where n: "nextOrder (rangeOrders st) = (ns, rest)" by (cases "nextOrder (rangeOrders st)")
  have "mset (rangeMap ns iamKeys) = mset iamKeys" by (rule mset_rangeMap)
  then show ?thesis
    using keysLoop_fields [of w c "rangeMap ns iamKeys" "st\<lparr>rangeOrders := rest\<rparr>"]
    by (auto simp add: validateKeys_def n)
qed

lemma filesLoop_fields:
  "\<exists>es. mset es = mset (concat (map snd files)) \<and>
     calls (filesLoop w c files st) = calls st @ map (\<lambda>(k, s). ValidateIAMKey k s) es \<and>
     stdout (filesLoop w c files st) =
       stdout st @ map (\<lambda>(k, s). validLine c k) (filter (\<lambda>(k, s). validateIAMKey w k s) es)"
proof (induction files arbitrary: st)
  case Nil
  show ?case by simp
next
  case (Cons f files)
  obtain path iamKeys where f: "f = (path, iamKeys)" by (cases f)
  let ?st1 = "validateKeys w c iamKeys st"
  from validateKeys_fields [of iamKeys w c st] obtain es1 where
    m1: "mset es1 = mset iamKeys" and
    c1: "calls ?st1 = calls st @ map (\<lambda>(k, s). ValidateIAMKey k s) es1" and
    o1: "stdout ?st1 =
           stdout st @ map (\<lambda>(k, s). validLine c k) (filter (\<lambda>(k, s). validateIAMKey w k s) es1)"
    by blast
  from Cons.IH [of ?st1] obtain es2 where
    m2: "mset es2 = mset (concat (map snd files))" and
    c2: "calls (filesLoop w c files ?st1) = calls ?st1 @ map (\<lambda>(k, s). ValidateIAMKey k s) es2" and
    o2: "stdout (filesLoop w c files ?st1) =
           stdout ?st1 @ map (\<lambda>(k, s). validLine c k) (filter (\<lambda>(k, s). validateIAMKey w k s) es2)"
    by blast
  have "mset (es1 @ es2) = mset (concat (map snd (f # files)))"
    by (simp add: m1 m2 f)
  moreover have "calls (filesLoop w c (f # files) st) =
      calls st @ map (\<lambda>(k, s). ValidateIAMKey k s) (es1 @ es2)"
    by (simp add: f c1 c2)
  moreover have "stdout (filesLoop w c (f # files) st) =
      stdout st @ map (\<lambda>(k, s). validLine c k) (filter (\<lambda>(k, s). validateIAMKey w k s) (es1 @ es2))"
    by (simp add: f o1 o2)
  ultimately show ?case by blast
qed

lemma validateFound_fields:
  "\<exists>es. mset es = mset (pairsOf found) \<and>
     calls (validateFound w c found st) = calls st @ map (\<lambda>(k, s). ValidateIAMKey k s) es \<and>
     stdout (validateFound w c found st) = stdout st @ linesIn w c es"
proof -
  obtain ns rest where n: "nextOrder (rangeOrders st) = (ns, rest)" by (cases "nextOrder (rangeOrders st)")
  have "mset (concat (map snd (rangeMap ns found))) = mset (pairsOf found)"
    unfolding pairsOf_def by (rule mset_concat_snd) (rule mset_rangeMap)
  then show ?thesis
    using filesLoop_fields [of "rangeMap ns found" w c "st\<lparr>rangeOrders := rest\<rparr>"]
    by (auto simp add: validateFound_def n linesIn_def)
qed





lemma commitLoop_append:
  "commitLoop w repoPath (pre @ suf) st =
     (case commitLoop w repoPath pre st of
        (Exit0, st') \<Rightarrow> commitLoop w repoPath suf st'
      | (Fatal f, st') \<Rightarrow> (Fatal f, st'))"
  by (induction pre arbitrary: st) (auto simp add: Let_def split: sum.splits)

lemma Walk_unreadable:
  "(path, VisitFile (Inl e)) \<in> set t \<Longrightarrow> \<exists>err. Walk searchIAMKeysInFile t found = Inl err"
proof (induction t arbitrary: found)
  case Nil
  then show ?case by simp
next
  case (Cons pv t)
  obtain p v where pv: "pv = (p, v)" by (cases pv)
  show ?case
  proof (cases "walkFunc searchIAMKeysInFile p v found")
    case (Inl err)
    with pv show ?thesis by simp
  next
    case (Inr found')
    with Cons.prems pv have "(path, VisitFile (Inl e)) \<in> set t"
      by (auto simp add: walkFunc_def searchIAMKeysInFile_def)
    from Cons.IH [OF this] Inr pv show ?thesis by simp
  qed
qed

lemma Split_nonempty: "Split s \<noteq> []"
  by (induction s) (simp_all add: Let_def)

lemma commitLoop_empty_hash:
  "\<exists>cs. calls (snd (commitLoop w repoPath [[]] st)) = calls st @ CheckoutCommit [] # cs"
proof (cases "checkoutCommit w repoPath []")
  case (Inl e)
  then show ?thesis by (simp add: Let_def)
next
  case co: (Inr t)
  show ?thesis
  proof (cases "searchIAMKeysInRepo t")
    case (Inl e)
    with co show ?thesis by (simp add: Let_def)
  next
    case (Inr found)
    from validateFound_fields
      [of found w "[]" "st\<lparr>calls := calls st @ [CheckoutCommit []], worktree := t\<rparr>"]
    obtain es where
      "calls (validateFound w [] found
                (st\<lparr>calls := calls st @ [CheckoutCommit []], worktree := t\<rparr>)) =
         calls st @ CheckoutCommit [] # map (\<lambda>(k, s). ValidateIAMKey k s) es"
      by auto
    with co Inr show ?thesis by (simp add: Let_def)
  qed
qed

section \<open>The claims\<close>

text \<open>
  Claim C1: the materialization of a revision completes before its scan begins, the scan
  completes before the next materialization begins, and no file read attributed to one
  revision observes the content of another. The variant with goroutines breaks this:
  with the commits \<open>abc123\<close> and \<open>def456\<close>, under the schedule in which the first
  goroutine checks out, the second checks out, and the first then searches, the search
  attributed to \<open>abc123\<close> finds the marker file of \<open>def456\<close> and not its own.
  \<^verbatim>\<open>main.go\<close>, on the same repository, validates after each checkout the key of
  that commit.
\<close>

theorem goroutine_reads_other_revision:
  "goroutines (main2 markerWorld ''https://example.com/repo.git'' [Go 0, Go 1, Go 0]) ! 0 =
     (''abc123'',
      Searched [(''/tmp/repo-clone-1/two.env'',
                 [(''AWS_ACCESS_KEY_ID'', ''AWS_SECRET_ACCESS_KEY'')])]) \<and>
   checkoutCommit markerWorld ''/tmp/repo-clone-1'' ''abc123'' = Inr treeOne \<and>
   searchIAMKeysInRepo2 treeOne =
     Inr [(''/tmp/repo-clone-1/one.env'',
           [(''AWS_ACCESS_KEY_ID'', ''AWS_SECRET_ACCESS_KEY'')])] \<and>
   calls (snd (main markerWorld ''https://example.com/repo.git'')) =
     [CheckoutCommit ''abc123'',
      ValidateIAMKey ''AKIA1234567890ABCD12'' ''abcDEF1234567890+/=='',
      CheckoutCommit ''def456'',
      ValidateIAMKey ''AKIA0000000000000002'' ''secondSecret'']"
  by code_simp



lemma range_order_example:
  "calls (snd (main twoKeysWorld ''https://example.com/repo.git'')) =
     [CheckoutCommit ''abc123'',
      ValidateIAMKey ''AKIAB'' ''sharedSecret'',
      ValidateIAMKey ''AKIAA'' ''sharedSecret'']"
  by code_simp


text \<open>
  Claim C3, as amended: when the validation call fails, for any reason and also when the
  authority reports that the identifier does not exist, \<^verbatim>\<open>validateIAMKey\<close> returns false
  in both variants, the value it returns for an invalid key, and never true.
\<close>

theorem failure_is_false:
  "(getCallerIdentity w accessKeyID secretAccessKey = Some err \<longrightarrow>
      validateIAMKey w accessKeyID secretAccessKey = False) \<and>
   (getAccessKeyLastUsed w accessKeyID = Inl err \<longrightarrow>
      validateIAMKey2 w accessKeyID secretAccessKey = False)"
  by (auto simp add: validateIAMKey_def validateIAMKey2_def split: option.splits go_error.splits)

theorem failure_is_false_witness:
  "getCallerIdentity timeoutWorld ''AKIA1234567890ABCD12'' ''abcDEF1234567890+/=='' =
     Some (AwsErr ''RequestError'') \<and>
   getAccessKeyLastUsed timeoutWorld ''AKIA1234567890ABCD12'' = Inl (AwsErr ''RequestError'') \<and>
   validateIAMKey timeoutWorld ''AKIA1234567890ABCD12'' ''abcDEF1234567890+/=='' = False \<and>
   validateIAMKey2 timeoutWorld ''AKIA1234567890ABCD12'' ''abcDEF1234567890+/=='' = False"
proof -
  have a: "getCallerIdentity timeoutWorld ''AKIA1234567890ABCD12'' ''abcDEF1234567890+/=='' =
             Some (AwsErr ''RequestError'')"
    by (simp add: timeoutWorld_def exampleWorld_def)
  have b: "getAccessKeyLastUsed timeoutWorld ''AKIA1234567890ABCD12'' =
             Inl (AwsErr ''RequestError'')"
    by (simp add: timeoutWorld_def exampleWorld_def)
  show ?thesis
    using a b
      failure_is_false [of timeoutWorld "''AKIA1234567890ABCD12''" "''abcDEF1234567890+/==''"
        "AwsErr ''RequestError''"]
    by simp
qed

text \<open>
  A request that times out gives the outcome of an identifier that the authority does
  not know.
\<close>

theorem timeout_is_invalid_counterexample:
  "\<not> (validateIAMKey timeoutWorld ''AKIA1234567890ABCD12'' ''abcDEF1234567890+/=='' \<noteq>
        validateIAMKey unknownKeyWorld ''AKIA1234567890ABCD12'' ''abcDEF1234567890+/=='') \<and>
   \<not> (validateIAMKey2 timeoutWorld ''AKIA1234567890ABCD12'' ''abcDEF1234567890+/=='' \<noteq>
        validateIAMKey2 unknownKeyWorld ''AKIA1234567890ABCD12'' ''abcDEF1234567890+/=='')"
  by code_simp

text \<open>
  Claim C4, as amended: in \<^verbatim>\<open>main.go\<close>, when the checkout of a revision fails after the
  revisions before it went through, that revision contributes no validation and no
  output, the failure is reported with the revision and its cause, and the run ends
  there: the revisions after it are not checked out.
\<close>

theorem checkout_failure_aborts:
  "checkoutCommit w repoPath commitHash = Inl e \<Longrightarrow>
   commitLoop w repoPath pre st = (Exit0, st') \<Longrightarrow>
   commitLoop w repoPath (pre @ commitHash # rest) st =
     (Fatal (ErrorCheckingOut commitHash e),
      st'\<lparr>calls := calls st' @ [CheckoutCommit commitHash]\<rparr>)"
  by (simp add: commitLoop_append Let_def)

theorem checkout_failure_aborts_witness:
  "checkoutCommit markerWorld ''/tmp/repo-clone-1'' ''zzz999'' =
     Inl (FailedToCheckout (GitError (fst pathspecError) (snd pathspecError))) \<and>
   fst (commitLoop markerWorld ''/tmp/repo-clone-1'' [''abc123''] initState) = Exit0 \<and>
   commitLoop markerWorld ''/tmp/repo-clone-1'' ([''abc123''] @ ''zzz999'' # [''def456'']) initState =
     (Fatal (ErrorCheckingOut ''zzz999''
        (FailedToCheckout (GitError (fst pathspecError) (snd pathspecError)))),
      (snd (commitLoop markerWorld ''/tmp/repo-clone-1'' [''abc123''] initState))
        \<lparr>calls := calls (snd (commitLoop markerWorld ''/tmp/repo-clone-1'' [''abc123''] initState))
           @ [CheckoutCommit ''zzz999'']\<rparr>)"
proof -
  let ?r = "commitLoop markerWorld ''/tmp/repo-clone-1'' [''abc123''] initState"
  have c: "checkoutCommit markerWorld ''/tmp/repo-clone-1'' ''zzz999'' =
             Inl (FailedToCheckout (GitError (fst pathspecError) (snd pathspecError)))"
    by code_simp
  have e: "fst ?r = Exit0" by code_simp
  then have p: "?r = (Exit0, snd ?r)" by (simp add: prod_eq_iff)
  show ?thesis using c e checkout_failure_aborts [OF c p, of "[''def456'']"] by simp
qed

text \<open>
  The first of two revisions cannot be checked out: the run of \<^verbatim>\<open>main.go\<close> ends with an
  error and the second revision is never checked out. So does the run of the second
  variant when \<^verbatim>\<open>main\<close> receives the error before the second goroutine has started.
\<close>

theorem walk_stops_counterexample:
  "fst (main brokenFirstWorld ''https://example.com/repo.git'') \<noteq> Exit0 \<and>
   CheckoutCommit ''def456'' \<notin> set (calls (snd (main brokenFirstWorld ''https://example.com/repo.git''))) \<and>
   finished (main2 brokenFirstWorld ''https://example.com/repo.git'' [Go 0, Go 0, MainStep]) =
     Some (Fatal (FromGoroutine (ErrCheckingOut ''abc123''
       (FailedToCheckout (GitError (fst pathspecError) (snd pathspecError)))))) \<and>
   CheckoutCommit ''def456'' \<notin>
     set (calls (main2 brokenFirstWorld ''https://example.com/repo.git'' [Go 0, Go 0, MainStep]))"
  by code_simp

text \<open>
  Claim C5, as amended: a failure to read one file makes \<^verbatim>\<open>searchIAMKeysInRepo\<close> return
  an error and no findings for the revision, and \<^verbatim>\<open>main.go\<close> then ends the run with
  that error before any validation of the revision.
\<close>

theorem unreadable_file_aborts:
  "(path, VisitFile (Inl e)) \<in> set t \<Longrightarrow>
   checkoutCommit w repoPath commitHash = Inr t \<Longrightarrow>
   (\<exists>err. searchIAMKeysInRepo t = Inl err \<and>
      commitLoop w repoPath (commitHash # rest) st =
        (Fatal (ErrorSearching err),
         st\<lparr>calls := calls st @ [CheckoutCommit commitHash], worktree := t\<rparr>))"
proof -
  assume m: "(path, VisitFile (Inl e)) \<in> set t"
    and co: "checkoutCommit w repoPath commitHash = Inr t"
  from Walk_unreadable [OF m, of "[]"] obtain err where
    "searchIAMKeysInRepo t = Inl (FailedToSearchRepo err)"
    by (auto simp add: searchIAMKeysInRepo_def searchRepoWith_def)
  with co show ?thesis by (simp add: Let_def)
qed

theorem unreadable_file_aborts_witness:
  "(''/tmp/repo-clone-1/a.lock'', VisitFile (Inl ''permission denied'')) \<in> set unreadableTree \<and>
   checkoutCommit unreadableWorld ''/tmp/repo-clone-1'' ''abc123'' = Inr unreadableTree \<and>
   (\<exists>err. searchIAMKeysInRepo unreadableTree = Inl err \<and>
      commitLoop unreadableWorld ''/tmp/repo-clone-1'' (''abc123'' # []) initState =
        (Fatal (ErrorSearching err),
         initState\<lparr>calls := calls initState @ [CheckoutCommit ''abc123''],
                   worktree := unreadableTree\<rparr>))"
proof -
  have m: "(''/tmp/repo-clone-1/a.lock'', VisitFile (Inl ''permission denied'')) \<in> set unreadableTree"
    by (simp add: unreadableTree_def)
  have c: "checkoutCommit unreadableWorld ''/tmp/repo-clone-1'' ''abc123'' = Inr unreadableTree"
    by (simp add: checkoutCommit_def unreadableWorld_def exampleWorld_def)
  show ?thesis using m c unreadable_file_aborts [OF m c, of "[]" initState] by simp
qed

text \<open>
  A tree whose first file cannot be read: the search returns an error in both variants,
  the readable file with a key pair after it is not reported, and the run of
  \<^verbatim>\<open>main.go\<close> ends with an error.
\<close>

theorem unreadable_file_counterexample:
  "searchIAMKeysInRepo unreadableTree =
     Inl (FailedToSearchRepo (FailedToSearchFile
            (FailedToReadFile (ReadFileError ''permission denied'')))) \<and>
   searchIAMKeysInRepo2 unreadableTree =
     Inl (FailedToSearchRepo (FailedToSearchFile
            (FailedToReadFile (ReadFileError ''permission denied'')))) \<and>
   main unreadableWorld ''https://example.com/repo.git'' =
     (Fatal (ErrorSearching (FailedToSearchRepo (FailedToSearchFile
            (FailedToReadFile (ReadFileError ''permission denied''))))),
      initState\<lparr>calls := [CheckoutCommit ''abc123''], worktree := unreadableTree\<rparr>)"
  by code_simp

text \<open>
  Claim C6: for the content \<open>AWS_ACCESS_KEY_ID=AKIA1234567890ABCD12\<close>, a newline,
  \<open>AWS_SECRET_ACCESS_KEY=abcDEF1234567890+/==\<close>, the extractor returns one candidate,
  whose identifier is \<open>AKIA1234567890ABCD12\<close>. \<^verbatim>\<open>main.go\<close> does so; the variant with
  goroutines returns one candidate whose identifier is the variable name
  \<open>AWS_ACCESS_KEY_ID\<close>, and whose secret is the name \<open>AWS_SECRET_ACCESS_KEY\<close>.
\<close>

theorem scenario_extraction:
  "searchIAMKeysInFile (Inr scenarioContent) =
     Inr [(''AKIA1234567890ABCD12'', ''abcDEF1234567890+/=='')] \<and>
   searchIAMKeysInFile2 (Inr scenarioContent) =
     Inr [(''AWS_ACCESS_KEY_ID'', ''AWS_SECRET_ACCESS_KEY'')]"
  by code_simp

text \<open>
  Claim C7, as amended: of two candidates with the same identifier and different
  secrets, the last one seen is retained: in both variants every identifier that
  \<^verbatim>\<open>searchIAMKeysInFile\<close> returns is paired with what the loop takes from the last
  secret match of the content.
\<close>

theorem last_secret_retained:
  "(searchIAMKeysInFile (Inr content) = Inr iamKeys \<and>
    (accessKeyID, secret) \<in> set iamKeys \<longrightarrow>
      FindAllStringSubmatch secretAccessKeyPattern content \<noteq> [] \<and>
      secret = last (FindAllStringSubmatch secretAccessKeyPattern content) ! 1) \<and>
   (searchIAMKeysInFile2 (Inr content) = Inr iamKeys2 \<and>
    (accessKeyID2, secret2) \<in> set iamKeys2 \<longrightarrow>
      FindAllStringSubmatch secretAccessKeyPattern2 content \<noteq> [] \<and>
      secret2 = last (FindAllStringSubmatch secretAccessKeyPattern2 content) ! 1)"
  using combineKeys_last [of accessKeyID secret
      "FindAllStringSubmatch accessKeyIDPattern content"
      "FindAllStringSubmatch secretAccessKeyPattern content"]
    combineKeys_last [of accessKeyID2 secret2
      "FindAllStringSubmatch accessKeyIDPattern2 content"
      "FindAllStringSubmatch secretAccessKeyPattern2 content"]
  by (auto simp add: searchIAMKeysInFile_def searchIAMKeysInFile2_def
      nonEmptyMatches_secret nonEmptyMatches_secret2)

theorem last_secret_retained_witness:
  "searchIAMKeysInFile (Inr twoSecretsContent) =
     Inr [(''AKIA1234567890ABCD12'', ''zzzXYZ0987654321+/=='')] \<and>
   FindAllStringSubmatch secretAccessKeyPattern twoSecretsContent \<noteq> [] \<and>
   ''zzzXYZ0987654321+/=='' =
     last (FindAllStringSubmatch secretAccessKeyPattern twoSecretsContent) ! 1 \<and>
   searchIAMKeysInFile2 (Inr twoSecretsContent) =
     Inr [(''AWS_ACCESS_KEY_ID'', ''AWS_SECRET_ACCESS_KEY'')] \<and>
   FindAllStringSubmatch secretAccessKeyPattern2 twoSecretsContent \<noteq> [] \<and>
   ''AWS_SECRET_ACCESS_KEY'' =
     last (FindAllStringSubmatch secretAccessKeyPattern2 twoSecretsContent) ! 1"
proof -
  have r: "searchIAMKeysInFile (Inr twoSecretsContent) =
             Inr [(''AKIA1234567890ABCD12'', ''zzzXYZ0987654321+/=='')]"
    by code_simp
  have r2: "searchIAMKeysInFile2 (Inr twoSecretsContent) =
             Inr [(''AWS_ACCESS_KEY_ID'', ''AWS_SECRET_ACCESS_KEY'')]"
    by code_simp
  show ?thesis
    using r r2
      last_secret_retained [of twoSecretsContent
        "[(''AKIA1234567890ABCD12'', ''zzzXYZ0987654321+/=='')]"
        "''AKIA1234567890ABCD12''" "''zzzXYZ0987654321+/==''"
        "[(''AWS_ACCESS_KEY_ID'', ''AWS_SECRET_ACCESS_KEY'')]"
        "''AWS_ACCESS_KEY_ID''" "''AWS_SECRET_ACCESS_KEY''"]
    by simp
qed

text \<open>One identifier and two secrets: the second secret is the one kept.\<close>

theorem first_secret_counterexample:
  "FindAllStringSubmatch secretAccessKeyPattern twoSecretsContent =
     [[''AWS_SECRET_ACCESS_KEY=abcDEF1234567890+/=='', ''abcDEF1234567890+/==''],
      [''AWS_SECRET_ACCESS_KEY=zzzXYZ0987654321+/=='', ''zzzXYZ0987654321+/=='']] \<and>
   searchIAMKeysInFile (Inr twoSecretsContent) =
     Inr [(''AKIA1234567890ABCD12'', ''zzzXYZ0987654321+/=='')]"
  by code_simp

text \<open>
  Claim C8, as amended: for N identifier matches and M secret matches the loops visit
  every combination, but the map that the extractor returns holds one pair for each
  distinct identifier, so at most N pairs, and none when no secret matched.
\<close>

theorem one_pair_per_identifier:
  "distinct (map fst (combineKeys accessKeyIDs secretAccessKeys [])) \<and>
   fst ` set (combineKeys accessKeyIDs secretAccessKeys []) =
     (if nonEmptyMatches secretAccessKeys = [] then {}
      else (\<lambda>match. match ! 1) ` set accessKeyIDs) \<and>
   length (combineKeys accessKeyIDs secretAccessKeys []) \<le> length accessKeyIDs"
  using distinct_combineKeys [of "[]" accessKeyIDs secretAccessKeys]
    keys_combineKeys [of accessKeyIDs secretAccessKeys "[]"]
    length_combineKeys [of accessKeyIDs secretAccessKeys]
  by simp

theorem one_pair_per_identifier_witness:
  "distinct (map fst (combineKeys [[''AWS_ACCESS_KEY_ID=AKIA1'', ''AKIA1'']]
      [[''AWS_SECRET_ACCESS_KEY=s1'', ''s1''], [''AWS_SECRET_ACCESS_KEY=s2'', ''s2'']] [])) \<and>
   fst ` set (combineKeys [[''AWS_ACCESS_KEY_ID=AKIA1'', ''AKIA1'']]
      [[''AWS_SECRET_ACCESS_KEY=s1'', ''s1''], [''AWS_SECRET_ACCESS_KEY=s2'', ''s2'']] []) =
     {''AKIA1''} \<and>
   length (combineKeys [[''AWS_ACCESS_KEY_ID=AKIA1'', ''AKIA1'']]
      [[''AWS_SECRET_ACCESS_KEY=s1'', ''s1''], [''AWS_SECRET_ACCESS_KEY=s2'', ''s2'']] []) \<le> 1"
  using one_pair_per_identifier [of "[[''AWS_ACCESS_KEY_ID=AKIA1'', ''AKIA1'']]"
      "[[''AWS_SECRET_ACCESS_KEY=s1'', ''s1''], [''AWS_SECRET_ACCESS_KEY=s2'', ''s2'']]"]
  by (simp add: nonEmptyMatches_def)

text \<open>
  One identifier and two secrets: the extractor returns one pair, and the pair of the
  identifier with the first secret is not in it.
\<close>

theorem cross_product_counterexample:
  "length (FindAllStringSubmatch accessKeyIDPattern twoSecretsContent) = 1 \<and>
   length (FindAllStringSubmatch secretAccessKeyPattern twoSecretsContent) = 2 \<and>
   (\<exists>iamKeys. searchIAMKeysInFile (Inr twoSecretsContent) = Inr iamKeys \<and>
      length iamKeys = 1 \<and>
      (''AKIA1234567890ABCD12'', ''abcDEF1234567890+/=='') \<notin> set iamKeys)"
proof -
  have r: "searchIAMKeysInFile (Inr twoSecretsContent) =
             Inr [(''AKIA1234567890ABCD12'', ''zzzXYZ0987654321+/=='')]"
    by code_simp
  have a: "length (FindAllStringSubmatch accessKeyIDPattern twoSecretsContent) = 1"
    by code_simp
  have b: "length (FindAllStringSubmatch secretAccessKeyPattern twoSecretsContent) = 2"
    by code_simp
  show ?thesis using r a b by simp
qed

text \<open>
  Claim C9, as amended: for a repository with zero revisions, on which \<^verbatim>\<open>git log\<close>
  fails as git does when the branch has no commits, \<^verbatim>\<open>getCommitHashes\<close> returns that
  error and \<^verbatim>\<open>main.go\<close> ends the run with it, before any checkout, validation or
  output: no report is produced.
\<close>

theorem enumeration_failure_fatal:
  "repoURL \<noteq> [] \<Longrightarrow> cloneRepo w repoURL = Inr repoPath \<Longrightarrow>
   chdir w repoPath = None \<Longrightarrow> gitLog w = Inl (e, out) \<Longrightarrow>
   getCommitHashes w repoPath = Inl (FailedToGetCommitHashes (GitError e out)) \<and>
   main w repoURL =
     (Fatal (ErrorGettingHashes (FailedToGetCommitHashes (GitError e out))), startState w) \<and>
   calls (startState w) = [] \<and> stdout (startState w) = []"
  by (simp add: main_def getCommitHashes_def startState_def initState_def)

theorem enumeration_failure_fatal_witness:
  "''https://example.com/repo.git'' \<noteq> [] \<and>
   cloneRepo noCommitsWorld ''https://example.com/repo.git'' = Inr ''/tmp/repo-clone-1'' \<and>
   chdir noCommitsWorld ''/tmp/repo-clone-1'' = None \<and>
   gitLog noCommitsWorld = Inl (fst noCommitsError, snd noCommitsError) \<and>
   getCommitHashes noCommitsWorld ''/tmp/repo-clone-1'' =
     Inl (FailedToGetCommitHashes (GitError (fst noCommitsError) (snd noCommitsError))) \<and>
   main noCommitsWorld ''https://example.com/repo.git'' =
     (Fatal (ErrorGettingHashes
        (FailedToGetCommitHashes (GitError (fst noCommitsError) (snd noCommitsError)))),
      startState noCommitsWorld) \<and>
   calls (startState noCommitsWorld) = [] \<and> stdout (startState noCommitsWorld) = []"
proof -
  have u: "''https://example.com/repo.git'' \<noteq> []" by simp
  have c: "cloneRepo noCommitsWorld ''https://example.com/repo.git'' = Inr ''/tmp/repo-clone-1''"
    by (simp add: cloneRepo_def noCommitsWorld_def exampleWorld_def)
  have d: "chdir noCommitsWorld ''/tmp/repo-clone-1'' = None"
    by (simp add: noCommitsWorld_def exampleWorld_def)
  have g: "gitLog noCommitsWorld = Inl (fst noCommitsError, snd noCommitsError)"
    by (simp add: noCommitsWorld_def exampleWorld_def)
  show ?thesis
    by (intro conjI u c d g enumeration_failure_fatal [OF u c d g, THEN conjunct1]
        enumeration_failure_fatal [OF u c d g, THEN conjunct2, THEN conjunct1]
        enumeration_failure_fatal [OF u c d g, THEN conjunct2, THEN conjunct2, THEN conjunct1]
        enumeration_failure_fatal [OF u c d g, THEN conjunct2, THEN conjunct2, THEN conjunct2])
qed

text \<open>
  A repository without commits: the run ends with the error of \<^verbatim>\<open>git log\<close>, having
  printed nothing.
\<close>

theorem no_commits_counterexample:
  "main noCommitsWorld ''https://example.com/repo.git'' =
     (Fatal (ErrorGettingHashes
        (FailedToGetCommitHashes (GitError (fst noCommitsError) (snd noCommitsError)))),
      initState)"
  by code_simp

text \<open>
  Claim C10: whenever the enumeration succeeds, \<^verbatim>\<open>getCommitHashes\<close> returns a non-empty
  list; when the output of the enumeration is the empty text, the list is the one-element
  list of the empty string, and the main loop treats that element as a revision: its
  first action is the checkout of the empty string.
\<close>

theorem getCommitHashes_nonempty:
  "chdir w repoPath = None \<Longrightarrow> gitLog w = Inr out \<Longrightarrow>
   (\<exists>commitHashes.
      getCommitHashes w repoPath = Inr commitHashes \<and> commitHashes \<noteq> [] \<and>
      (out = [] \<longrightarrow>
         commitHashes = [[]] \<and>
         (\<exists>cs. calls (snd (commitLoop w repoPath commitHashes st)) =
                 calls st @ CheckoutCommit [] # cs)))"
proof -
  assume c: "chdir w repoPath = None" and o: "gitLog w = Inr out"
  have g: "getCommitHashes w repoPath = Inr (Split out)"
    by (simp add: getCommitHashes_def c o)
  have e: "out = [] \<longrightarrow> Split out = [[]]" by simp
  show ?thesis
    using g e Split_nonempty [of out] commitLoop_empty_hash [of w repoPath st] by auto
qed

theorem getCommitHashes_nonempty_witness:
  "chdir emptyLogWorld ''/tmp/repo-clone-1'' = None \<and>
   gitLog emptyLogWorld = Inr [] \<and>
   getCommitHashes emptyLogWorld ''/tmp/repo-clone-1'' = Inr [[]] \<and>
   (\<exists>cs. calls (snd (commitLoop emptyLogWorld ''/tmp/repo-clone-1'' [[]] initState)) =
           calls initState @ CheckoutCommit [] # cs)"
proof -
  have c: "chdir emptyLogWorld ''/tmp/repo-clone-1'' = None"
    by (simp add: emptyLogWorld_def exampleWorld_def)
  have l: "gitLog emptyLogWorld = Inr []"
    by (simp add: emptyLogWorld_def exampleWorld_def)
  show ?thesis using c l getCommitHashes_nonempty [OF c l, of initState] by auto
qed

end
